theory Spec2Isabelle
  imports Main "HOL-Library.Multiset"
begin

section \<open>The WebView page controller (class \<open>Page\<close>)\<close>

subsection \<open>Page descriptors (interface \<open>IPage\<close>)\<close>

text \<open>
  An optional TypeScript field \<open>f?: T\<close> is a \<open>T option\<close>: \<open>None\<close> is the omitted
  (\<open>undefined\<close>) field. A callback is an opaque user function; only its identity matters
  here, so it is a number.
\<close>

type_synonym callback = nat

record callbacks =
  cb_onReady :: callback
  cb_onClose :: callback

record onOpen_options =
  focus :: "bool option"
  showCursor :: "bool option"
  hideHud :: "bool option"
  hideOverlays :: "bool option"
  disableControls :: "string option"
  disablePauseMenu :: "bool option"
  blurBackground :: "bool option"
  setIsMenuOpenToTrue :: "bool option"

record onClose_options =
  unfocus :: "bool option"
  hideCursor :: "bool option"
  showHud :: "bool option"
  showOverlays :: "bool option"
  enableControls :: "bool option"
  enablePauseMenu :: "bool option"
  unblurBackground :: "bool option"
  setIsMenuOpenToFalse :: "bool option"

record page_options =
  disableEscapeKey :: "bool option"
  onOpen :: "onOpen_options option"
  onClose :: "onClose_options option"

text \<open>
  Of the key binding, \<open>open\<close> and \<open>close\<close> read \<open>useSameKeyToClose\<close> only; the fields of
  \<open>BaseKeyInfo\<close> are used by the constructor alone.
\<close>

record keybind_info =
  useSameKeyToClose :: "bool option"

record IPage =
  name :: string
  callbacks :: callbacks
  options :: "page_options option"
  keybind :: "keybind_info option"

subsection \<open>The host: what a call can ask, and what it can do\<close>

text \<open>
  The four questions \<open>open\<close> asks of the host before it does anything:
  \<open>AthenaClient.webview.isPageOpen(name)\<close>, \<open>isAnyMenuOpen()\<close>, \<open>alt.isConsoleOpen()\<close>
  and \<open>alt.isMenuOpen()\<close>. All four are read before the first side effect of the same call,
  so one call sees one host.
\<close>

record host =
  isPageOpen :: "string \<Rightarrow> bool"
  isAnyMenuOpen :: bool
  isConsoleOpen :: bool
  isMenuOpen :: bool

text \<open>
  \<open>close.bind(this)\<close>, handed to the UI host as the automatic close handler, is the token
  \<open>Close_bound\<close>.
\<close>

datatype handler = Close_bound

text \<open>
  Every side effect of \<open>open\<close> and \<open>close\<close> is a call to the host (or a store to
  \<open>alt.Player.local.isMenuOpen\<close>, or the invocation of a user callback). A run is the list
  of the calls it made, in order. The host's calls are taken to return.
\<close>

datatype call =
    Webview_focus
  | Webview_unfocus
  | Webview_showCursor bool
  | Webview_showOverlays bool "bool option"
  | Webview_open "string list" bool handler
  | Webview_close "string list" bool
  | Alt_toggleGameControls bool
  | GameplayCamera_disable
  | GameplayCamera_enable
  | PauseMenu_disable
  | PauseMenu_enable
  | Native_displayRadar bool
  | Native_displayHud bool
  | Native_triggerScreenblurFadeIn nat
  | Native_triggerScreenblurFadeOut nat
  | Set_isMenuOpen bool
  | Invoke callback

text \<open>
  Reading a property of \<open>undefined\<close> throws a \<open>TypeError\<close>; the string is the property
  that was being read.
\<close>

datatype fault = TypeError string

text \<open>A run: the calls made, then the fault that ended it or the value returned.\<close>

type_synonym 'a run = "call list \<times> (fault + 'a)"

text \<open>\<open>if (x)\<close> on an optional boolean: only \<open>true\<close> passes.\<close>

definition truthy :: "bool option \<Rightarrow> bool" where
  "truthy b = (b = Some True)"

text \<open>\<open>if (c) { calls }\<close> after the calls \<open>tr\<close> made so far.\<close>

definition emit_if :: "bool \<Rightarrow> call list \<Rightarrow> call list \<Rightarrow> call list" where
  "emit_if c cs tr = (if c then tr @ cs else tr)"

subsection \<open>\<open>Page.close\<close>\<close>

definition Page_close :: "IPage \<Rightarrow> bool \<Rightarrow> unit run" where
  "Page_close p isManuallyTriggered =
    (case options p of
      None \<Rightarrow> ([], Inl (TypeError ''onClose''))
    | Some opts \<Rightarrow>
       (case onClose opts of
         None \<Rightarrow> ([], Inl (TypeError ''showOverlays''))
       | Some oc \<Rightarrow>
          (let show_overlays = (if showOverlays oc = Some False then False else True);
               t1 = emit_if isManuallyTriggered [Webview_close [name p] show_overlays] [];
               t2 = emit_if (\<not> isManuallyTriggered \<and> show_overlays)
                      [Webview_showOverlays True (Some False)] t1;
               t3 = emit_if (truthy (hideCursor oc)) [Webview_showCursor False] t2;
               t4 = emit_if (truthy (unfocus oc)) [Webview_unfocus] t3;
               t5 = emit_if (truthy (unblurBackground oc)) [Native_triggerScreenblurFadeOut 250] t4;
               t6 = emit_if (truthy (setIsMenuOpenToFalse oc)) [Set_isMenuOpen False] t5;
               t7 = emit_if (truthy (showHud oc)) [Native_displayRadar True, Native_displayHud True] t6;
               t8 = emit_if (truthy (enablePauseMenu oc)) [PauseMenu_enable] t7;
               t9 = emit_if (truthy (enableControls oc))
                      [Alt_toggleGameControls True, GameplayCamera_enable] t8
           in (t9 @ [Invoke (cb_onClose (callbacks p))], Inr ()))))"

subsection \<open>\<open>Page.open\<close>\<close>

text \<open>
  \<open>open\<close> is \<open>async\<close>: the value of a run is what its promise resolves to, a fault is
  its rejection. The awaited display call is taken to resolve.
\<close>

text \<open>The \<open>switch\<close> on \<open>onOpen.disableControls\<close>.\<close>

definition disableControls_switch :: "string option \<Rightarrow> call list \<Rightarrow> call list" where
  "disableControls_switch dc tr =
    (if dc = Some ''all'' then tr @ [Alt_toggleGameControls False]
     else if dc = Some ''camera'' then tr @ [GameplayCamera_disable]
     else tr)"

text \<open>
  The first \<open>if\<close> of \<open>open\<close>: \<open>this.info.keybind && this.info.keybind.useSameKeyToClose\<close>,
  and inside it the question whether the page is open.
\<close>

definition uses_same_key :: "IPage \<Rightarrow> bool" where
  "uses_same_key p =
    (case keybind p of None \<Rightarrow> False | Some k \<Rightarrow> truthy (useSameKeyToClose k))"

definition toggle_redirect :: "IPage \<Rightarrow> host \<Rightarrow> bool" where
  "toggle_redirect p h = (uses_same_key p \<and> isPageOpen h (name p))"

definition Page_open :: "IPage \<Rightarrow> host \<Rightarrow> bool run" where
  "Page_open p h =
    (if toggle_redirect p h then
       (case Page_close p True of
         (tr, Inl e) \<Rightarrow> (tr, Inl e)
       | (tr, Inr u) \<Rightarrow> (tr, Inr False))
     else if isAnyMenuOpen h then ([], Inr False)
     else if isConsoleOpen h then ([], Inr False)
     else if isMenuOpen h then ([], Inr False)
     else
      (case options p of
        None \<Rightarrow> ([], Inl (TypeError ''onOpen''))
      | Some opts \<Rightarrow>
         (case onOpen opts of
           None \<Rightarrow> ([], Inl (TypeError ''focus''))
         | Some oo \<Rightarrow>
            (let t1 = emit_if (truthy (focus oo)) [Webview_focus] [];
                 hide_overlays = (if hideOverlays oo = Some False then False else True);
                 t2 = emit_if (truthy (hideHud oo)) [Webview_showOverlays False None] t1;
                 t3 = emit_if (truthy (showCursor oo)) [Webview_showCursor True] t2;
                 t4 = disableControls_switch (disableControls oo) t3;
                 t5 = emit_if (truthy (disablePauseMenu oo)) [PauseMenu_disable] t4;
                 t6 = emit_if (truthy (hideHud oo))
                        [Native_displayRadar False, Native_displayHud False] t5;
                 t7 = emit_if (truthy (blurBackground oo)) [Native_triggerScreenblurFadeIn 250] t6;
                 t8 = emit_if (truthy (setIsMenuOpenToTrue oo)) [Set_isMenuOpen True] t7
             in (t8 @ [Webview_open [name p] hide_overlays Close_bound], Inr True)))))"

subsection \<open>What the specification says of \<open>open\<close> and \<open>close\<close>\<close>

text \<open>
  The calls of a completed \<open>open\<close>, as the specification lists them: focus, HUD overlays,
  cursor, controls, pause menu, radar and HUD widgets, blur, menu flag, and last the display
  call with the overlay flag (true unless \<open>onOpen.hideOverlays\<close> is explicitly false) and the
  bound \<open>close\<close>.
\<close>

definition open_calls_spec :: "IPage \<Rightarrow> onOpen_options \<Rightarrow> call list" where
  "open_calls_spec p oo =
     (if focus oo = Some True then [Webview_focus] else []) @
     (if hideHud oo = Some True then [Webview_showOverlays False None] else []) @
     (if showCursor oo = Some True then [Webview_showCursor True] else []) @
     (if disableControls oo = Some ''all'' then [Alt_toggleGameControls False]
      else if disableControls oo = Some ''camera'' then [GameplayCamera_disable]
      else []) @
     (if disablePauseMenu oo = Some True then [PauseMenu_disable] else []) @
     (if hideHud oo = Some True then [Native_displayRadar False, Native_displayHud False] else []) @
     (if blurBackground oo = Some True then [Native_triggerScreenblurFadeIn 250] else []) @
     (if setIsMenuOpenToTrue oo = Some True then [Set_isMenuOpen True] else []) @
     [Webview_open [name p] (hideOverlays oo \<noteq> Some False) Close_bound]"

text \<open>The kinds of call the claims count.\<close>

fun is_Invoke :: "call \<Rightarrow> bool" where
  "is_Invoke (Invoke c) = True"
| "is_Invoke _ = False"

fun is_hide_surface :: "call \<Rightarrow> bool" where
  "is_hide_surface (Webview_close ns b) = True"
| "is_hide_surface _ = False"

fun is_show_overlays :: "call \<Rightarrow> bool" where
  "is_show_overlays (Webview_showOverlays a b) = True"
| "is_show_overlays _ = False"

text \<open>One of the three blocking checks holds.\<close>

definition blocked :: "host \<Rightarrow> bool" where
  "blocked h = (isAnyMenuOpen h \<or> isConsoleOpen h \<or> isMenuOpen h)"

text \<open>
  \<open>open\<close> would throw at its first read of \<open>options.onOpen\<close>: \<open>options\<close> or
  \<open>options.onOpen\<close> is missing.
\<close>

definition lacks_onOpen :: "IPage \<Rightarrow> bool" where
  "lacks_onOpen p = (case options p of None \<Rightarrow> True | Some opts \<Rightarrow> onOpen opts = None)"

definition lacks_onClose :: "IPage \<Rightarrow> bool" where
  "lacks_onClose p = (case options p of None \<Rightarrow> True | Some opts \<Rightarrow> onClose opts = None)"

subsection \<open>Concrete descriptors and hosts\<close>

definition no_onOpen_flags :: onOpen_options where
  "no_onOpen_flags =
     \<lparr>focus = None, showCursor = None, hideHud = None, hideOverlays = None,
      disableControls = None, disablePauseMenu = None, blurBackground = None,
      setIsMenuOpenToTrue = None\<rparr>"

definition no_onClose_flags :: onClose_options where
  "no_onClose_flags =
     \<lparr>unfocus = None, hideCursor = None, showHud = None, showOverlays = None,
      enableControls = None, enablePauseMenu = None, unblurBackground = None,
      setIsMenuOpenToFalse = None\<rparr>"

text \<open>
  The specification's scenario:
  \<open>{name: "inventory", options: {onOpen: {focus: true, hideHud: true}, onClose: {showHud: true}}}\<close>.
\<close>

definition inventory_onOpen :: onOpen_options where
  "inventory_onOpen = no_onOpen_flags\<lparr>focus := Some True, hideHud := Some True\<rparr>"

definition inventory_onClose :: onClose_options where
  "inventory_onClose = no_onClose_flags\<lparr>showHud := Some True\<rparr>"

definition inventory_options :: page_options where
  "inventory_options =
     \<lparr>disableEscapeKey = None, onOpen = Some inventory_onOpen, onClose = Some inventory_onClose\<rparr>"

definition inventory_page :: IPage where
  "inventory_page =
     \<lparr>name = ''inventory'', callbacks = \<lparr>cb_onReady = 0, cb_onClose = 1\<rparr>,
      options = Some inventory_options, keybind = None\<rparr>"

text \<open>The same page with a key that also closes it.\<close>

definition toggle_page :: IPage where
  "toggle_page = inventory_page\<lparr>keybind := Some \<lparr>useSameKeyToClose = Some True\<rparr>\<rparr>"

text \<open>Descriptors the type \<open>IPage\<close> admits and the controller cannot run.\<close>

definition bare_page :: IPage where
  "bare_page = inventory_page\<lparr>options := None\<rparr>"

definition empty_options_page :: IPage where
  "empty_options_page =
     inventory_page\<lparr>options := Some \<lparr>disableEscapeKey = None, onOpen = None, onClose = None\<rparr>\<rparr>"

definition bare_toggle_page :: IPage where
  "bare_toggle_page = toggle_page\<lparr>options := None\<rparr>"

text \<open>
  Descriptors with one group of options only, each with its overlay flag explicitly false.
\<close>

definition onOpen_only_page :: IPage where
  "onOpen_only_page =
     inventory_page\<lparr>options :=
       Some \<lparr>disableEscapeKey = None,
             onOpen = Some (no_onOpen_flags\<lparr>hideOverlays := Some False\<rparr>),
             onClose = None\<rparr>\<rparr>"

definition onClose_only_page :: IPage where
  "onClose_only_page =
     inventory_page\<lparr>options :=
       Some \<lparr>disableEscapeKey = None, onOpen = None,
             onClose = Some (no_onClose_flags\<lparr>showOverlays := Some False\<rparr>)\<rparr>\<rparr>"

text \<open>Hosts: nothing open; the page open; the page open under another menu.\<close>

definition quiet_host :: host where
  "quiet_host =
     \<lparr>isPageOpen = (\<lambda>n. False), isAnyMenuOpen = False, isConsoleOpen = False,
      isMenuOpen = False\<rparr>"

definition page_open_host :: host where
  "page_open_host = quiet_host\<lparr>isPageOpen := (\<lambda>n. n = ''inventory'')\<rparr>"

definition console_host :: host where
  "console_host = quiet_host\<lparr>isConsoleOpen := True\<rparr>"

definition page_open_menu_host :: host where
  "page_open_menu_host = page_open_host\<lparr>isAnyMenuOpen := True\<rparr>"

section \<open>The default weather system\<close>

text \<open>
  The module's state: the array \<open>weathers\<close>, the flag \<open>enabled\<close> and the timer handle
  \<open>interval\<close>. A \<open>WEATHER_KEY\<close> is a string; an array slot can also hold \<open>undefined\<close>
  (what \<open>shift\<close> gives on an empty array), so a slot is a \<open>string option\<close>.
\<close>

record weather_system =
  weathers :: "string option list"
  enabled :: bool
  interval :: "nat option"

definition weather_init :: weather_system where
  "weather_init =
     \<lparr>weathers =
        [Some ''ExtraSunny'', Some ''ExtraSunny'', Some ''Clear'', Some ''Clouds'',
         Some ''Overcast'', Some ''Rain'', Some ''Thunder'', Some ''Rain'', Some ''Foggy'',
         Some ''Overcast'', Some ''Clearing''],
      enabled = True, interval = None\<rparr>"

text \<open>\<open>weathers[0]\<close>: \<open>undefined\<close> on an empty array.\<close>

definition first_weather :: "string option list \<Rightarrow> string option" where
  "first_weather ws = (case ws of [] \<Rightarrow> None | w # rest \<Rightarrow> w)"

text \<open>\<open>Array.prototype.shift\<close>: the removed element (\<open>undefined\<close> if there is none) and the rest.\<close>

definition array_shift :: "string option list \<Rightarrow> string option \<times> string option list" where
  "array_shift ws = (case ws of [] \<Rightarrow> (None, []) | w # rest \<Rightarrow> (w, rest))"

definition array_push :: "string option list \<Rightarrow> string option \<Rightarrow> string option list" where
  "array_push ws w = ws @ [w]"

record player =
  player_id :: nat
  valid :: bool
  hasFullySpawned :: bool

datatype server_call =
    Emit_message nat string
  | Set_weather nat nat
  | Clear_interval nat
  | Log string

text \<open>A slot inside a template string.\<close>

definition template :: "string option \<Rightarrow> string" where
  "template w = (case w of None \<Rightarrow> ''undefined'' | Some k \<Rightarrow> k)"

text \<open>
  \<open>getWeatherFromString\<close> is imported from another module; it is a parameter here.
\<close>

definition updatePlayer ::
  "(string option \<Rightarrow> nat) \<Rightarrow> weather_system \<Rightarrow> player \<Rightarrow> server_call list" where
  "updatePlayer getWeatherFromString s pl =
     (if \<not> enabled s then []
      else [Emit_message (player_id pl)
              (''Weather is now '' @ template (first_weather (weathers s)) @ ''.''),
            Set_weather (player_id pl) (getWeatherFromString (first_weather (weathers s)))])"

text \<open>\<open>[...alt.Player.all].filter((x) => x && x.valid && x.hasFullySpawned)\<close>\<close>

fun loggedInPlayers :: "player option list \<Rightarrow> player list" where
  "loggedInPlayers [] = []"
| "loggedInPlayers (None # xs) = loggedInPlayers xs"
| "loggedInPlayers (Some x # xs) =
     (if valid x \<and> hasFullySpawned x then x # loggedInPlayers xs else loggedInPlayers xs)"

definition handleWeatherUpdate ::
  "(string option \<Rightarrow> nat) \<Rightarrow> weather_system \<Rightarrow> player option list
     \<Rightarrow> weather_system \<times> server_call list" where
  "handleWeatherUpdate getWeatherFromString s all_players =
     (if \<not> enabled s then (s, [])
      else
        (let logged_in = loggedInPlayers all_players in
         if length logged_in \<le> 0 then (s, [])
         else
           (let (w, rest) = array_shift (weathers s);
                s' = s\<lparr>weathers := array_push rest w\<rparr>
            in (s', concat (map (updatePlayer getWeatherFromString s') logged_in)))))"

definition DefaultWeatherSystem_disable :: "weather_system \<Rightarrow> weather_system \<times> server_call list" where
  "DefaultWeatherSystem_disable s =
     (let s1 = s\<lparr>enabled := False\<rparr> in
      case interval s1 of
        Some i \<Rightarrow>
          (s1\<lparr>interval := None\<rparr>, [Clear_interval i, Log ''Default Weather System Turned Off''])
      | None \<Rightarrow> (s1, [Log ''Default Weather System Turned Off'']))"

text \<open>\<open>getCurrentWeather(asString)\<close>: a number (\<open>Inl\<close>) or the key itself (\<open>Inr\<close>).\<close>

definition getCurrentWeather ::
  "(string option \<Rightarrow> nat) \<Rightarrow> weather_system \<Rightarrow> bool \<Rightarrow> nat + string option" where
  "getCurrentWeather getWeatherFromString s asString =
     (if asString then Inr (first_weather (weathers s))
      else Inl (getWeatherFromString (first_weather (weathers s))))"

text \<open>
  What can happen to the module after it is loaded: the timer fires with some list of
  players connected, a character is selected (\<open>updatePlayer\<close>, which only sends), or the
  system is disabled. A reachable state is the state after any list of such events.
\<close>

datatype weather_event =
    Interval_tick "player option list"
  | Selected_character player
  | Disable

fun weather_step ::
  "(string option \<Rightarrow> nat) \<Rightarrow> weather_system \<Rightarrow> weather_event \<Rightarrow> weather_system" where
  "weather_step gw s (Interval_tick all_players) = fst (handleWeatherUpdate gw s all_players)"
| "weather_step gw s (Selected_character pl) = s"
| "weather_step gw s Disable = fst (DefaultWeatherSystem_disable s)"

definition weather_run ::
  "(string option \<Rightarrow> nat) \<Rightarrow> weather_event list \<Rightarrow> weather_system" where
  "weather_run gw events = foldl (weather_step gw) weather_init events"

section \<open>Vehicle doors\<close>

text \<open>
  Of a vehicle, \<open>toggleDoor\<close> uses the host's \<open>getDoorState\<close> and \<open>setDoorState\<close>: a state
  number for each door, read back as it was set.
\<close>

record vehicle =
  doorStates :: "nat \<Rightarrow> nat"

definition getDoorState :: "vehicle \<Rightarrow> nat \<Rightarrow> nat" where
  "getDoorState v door = doorStates v door"

definition setDoorState :: "vehicle \<Rightarrow> nat \<Rightarrow> nat \<Rightarrow> vehicle" where
  "setDoorState v door st = v\<lparr>doorStates := (doorStates v)(door := st)\<rparr>"

definition toggleDoor :: "vehicle \<Rightarrow> nat \<Rightarrow> vehicle \<times> bool" where
  "toggleDoor v door =
     (let isClosed = (if getDoorState v door = 0 then True else False);
          doorState = (if isClosed = False then 0 else 7);
          v' = setDoorState v door doorState
      in (v', isClosed = False))"

text \<open>A door is open in every state but 0.\<close>

definition door_open :: "nat \<Rightarrow> bool" where
  "door_open st = (st \<noteq> 0)"

section \<open>Properties of the page controller\<close>

lemma emit_if_append: "emit_if c cs tr = tr @ (if c then cs else [])"
  by (simp add: emit_if_def)

lemma disableControls_switch_append:
  "disableControls_switch dc tr =
     tr @ (if dc = Some ''all'' then [Alt_toggleGameControls False]
           else if dc = Some ''camera'' then [GameplayCamera_disable] else [])"
  by (simp add: disableControls_switch_def)

lemma if_False_True: "(if c then False else True) = (\<not> c)"
  by simp

lemmas page_defs =
  inventory_page_def inventory_options_def inventory_onOpen_def inventory_onClose_def
  no_onOpen_flags_def no_onClose_flags_def toggle_page_def bare_page_def
  empty_options_page_def bare_toggle_page_def quiet_host_def page_open_host_def
  console_host_def page_open_menu_host_def

lemma Page_close_result:
  "snd (Page_close p m) =
     (if lacks_onClose p
      then Inl (TypeError (if options p = None then ''onClose'' else ''showOverlays''))
      else Inr ())"
  by (simp add: Page_close_def lacks_onClose_def Let_def split: option.splits)

lemma Page_open_redirect:
  assumes "toggle_redirect p h"
  shows "fst (Page_open p h) = fst (Page_close p True)"
    and "snd (Page_open p h) =
           (case snd (Page_close p True) of Inl e \<Rightarrow> Inl e | Inr u \<Rightarrow> Inr False)"
  using assms by (simp_all add: Page_open_def split: prod.splits sum.splits)

lemma Page_open_blocked:
  assumes "\<not> toggle_redirect p h" and "blocked h"
  shows "Page_open p h = ([], Inr False)"
  using assms by (auto simp add: Page_open_def blocked_def)

lemma Page_open_run:
  assumes "\<not> toggle_redirect p h" and "\<not> blocked h"
  shows "Page_open p h =
      (if lacks_onOpen p
       then ([], Inl (TypeError (if options p = None then ''onOpen'' else ''focus'')))
       else (fst (Page_open p h), Inr True))"
  using assms
  by (simp add: Page_open_def blocked_def lacks_onOpen_def Let_def split: option.splits)

text \<open>
  Claim C1. As stated (for every descriptor, every call of \<open>close\<close> invokes \<open>onClose\<close>
  exactly once, last) the claim fails: a descriptor without \<open>options\<close> is an \<open>IPage\<close>, and
  \<open>close\<close> throws on it at its first statement, before any call and without invoking
  \<open>onClose\<close>.
\<close>

theorem close_bare_page_never_invokes_onClose:
  "Page_close bare_page False = ([], Inl (TypeError ''onClose'')) \<and>
   filter is_Invoke (fst (Page_close bare_page False)) = []"
  by (simp add: Page_close_def page_defs)

text \<open>
  Claim C1, amended. For every descriptor that has \<open>options.onClose\<close> and for both values
  of \<open>isManuallyTriggered\<close>, \<open>close\<close> returns, the last call it makes is the invocation of
  the descriptor's \<open>onClose\<close> callback, and that is the only callback invocation of the
  run, whatever the flags of \<open>options.onClose\<close> are.
\<close>

theorem close_invokes_onClose_once_last:
  assumes "options p = Some opts" and "onClose opts = Some oc"
  shows "snd (Page_close p isManuallyTriggered) = Inr () \<and>
         last (fst (Page_close p isManuallyTriggered)) = Invoke (cb_onClose (callbacks p)) \<and>
         filter is_Invoke (fst (Page_close p isManuallyTriggered)) =
           [Invoke (cb_onClose (callbacks p))]"
  using assms by (simp add: Page_close_def emit_if_append truthy_def Let_def)

theorem close_invokes_onClose_once_last_witness:
  "options inventory_page = Some inventory_options \<and>
   onClose inventory_options = Some inventory_onClose \<and>
   snd (Page_close inventory_page False) = Inr () \<and>
   last (fst (Page_close inventory_page False)) = Invoke 1 \<and>
   filter is_Invoke (fst (Page_close inventory_page False)) = [Invoke 1] \<and>
   fst (Page_close inventory_page False) =
     [Webview_showOverlays True (Some False), Native_displayRadar True, Native_displayHud True,
      Invoke 1]"
proof -
  have o: "options inventory_page = Some inventory_options"
    by (simp add: page_defs)
  have c: "onClose inventory_options = Some inventory_onClose"
    by (simp add: page_defs)
  have run: "fst (Page_close inventory_page False) =
     [Webview_showOverlays True (Some False), Native_displayRadar True, Native_displayHud True,
      Invoke 1]"
    by (simp add: Page_close_def emit_if_def truthy_def page_defs)
  have cb: "cb_onClose (callbacks inventory_page) = 1"
    by (simp add: page_defs)
  from close_invokes_onClose_once_last [OF o c, of False] o c run cb
  show ?thesis by simp
qed

text \<open>
  Claim C2. As stated (a blocking check that holds makes \<open>open\<close> return false with no side
  effect) the claim fails on the toggle path, which \<open>open\<close> takes before it consults the
  three checks: with \<open>useSameKeyToClose\<close> set and the page open, \<open>open\<close> runs
  \<open>close(true)\<close> although another menu is open.
\<close>

theorem open_toggle_page_under_menu_closes:
  "isAnyMenuOpen page_open_menu_host \<and>
   Page_open toggle_page page_open_menu_host =
     ([Webview_close [''inventory''] True, Native_displayRadar True, Native_displayHud True,
       Invoke 1], Inr False)"
  by (simp add: Page_open_def Page_close_def toggle_redirect_def uses_same_key_def
      emit_if_def truthy_def page_defs)

text \<open>
  Claim C2, amended. For every descriptor, if one of the three blocking checks holds and the
  toggle redirect does not fire (\<open>keybind.useSameKeyToClose\<close> is not true, or the page is
  not reported open), then \<open>open\<close> returns false, without a fault, and makes no call at
  all. If the redirect fires, \<open>open\<close> makes the calls of \<open>close(true)\<close> although a
  blocking check holds, and returns false if \<open>close(true)\<close> returns.
\<close>

theorem open_blocked_returns_false_no_calls:
  assumes "isAnyMenuOpen h \<or> isConsoleOpen h \<or> isMenuOpen h"
  shows "Page_open p h =
           (if toggle_redirect p h
            then (fst (Page_close p True),
                  case snd (Page_close p True) of Inl e \<Rightarrow> Inl e | Inr u \<Rightarrow> Inr False)
            else ([], Inr False))"
proof (cases "toggle_redirect p h")
  case True
  with Page_open_redirect [OF True] show ?thesis
    by (simp add: prod_eq_iff)
next
  case False
  from assms have "blocked h"
    by (simp add: blocked_def)
  with False Page_open_blocked [of p h] show ?thesis
    by simp
qed

theorem open_blocked_returns_false_no_calls_witness:
  "(isAnyMenuOpen console_host \<or> isConsoleOpen console_host \<or> isMenuOpen console_host) \<and>
   toggle_redirect inventory_page console_host = False \<and>
   Page_open inventory_page console_host = ([], Inr False)"
proof -
  have r: "toggle_redirect inventory_page console_host = False"
    by (simp add: toggle_redirect_def uses_same_key_def page_defs)
  have b: "isAnyMenuOpen console_host \<or> isConsoleOpen console_host \<or> isMenuOpen console_host"
    by (simp add: page_defs)
  from open_blocked_returns_false_no_calls [OF b, of inventory_page] r b show ?thesis by simp
qed

text \<open>
  Claim C3. As stated (for every descriptor, when no precondition aborts, the side effects
  fire in order and \<open>open\<close> returns true) the claim fails on a descriptor whose \<open>options\<close>
  has no \<open>onOpen\<close>: no precondition aborts, and \<open>open\<close> throws at its first read of
  \<open>onOpen.focus\<close>, having made no call.
\<close>

theorem open_empty_options_page_faults:
  "\<not> toggle_redirect empty_options_page quiet_host \<and> \<not> blocked quiet_host \<and>
   Page_open empty_options_page quiet_host = ([], Inl (TypeError ''focus''))"
  by (simp add: Page_open_def toggle_redirect_def uses_same_key_def blocked_def page_defs)

text \<open>
  Claim C3, amended. For every descriptor that has \<open>options.onOpen\<close>, when the toggle
  redirect does not fire and none of the three blocking checks holds, \<open>open\<close> makes exactly
  the calls of \<open>open_calls_spec\<close>, in that order: focus (if \<open>focus\<close>), HUD overlays off (if
  \<open>hideHud\<close>), cursor on (if \<open>showCursor\<close>), all controls off for \<open>'all'\<close> or camera off
  for \<open>'camera'\<close> and nothing for any other value, pause menu off (if \<open>disablePauseMenu\<close>),
  radar and HUD off (if \<open>hideHud\<close>), the 250 ms blur (if \<open>blurBackground\<close>), the menu flag (if
  \<open>setIsMenuOpenToTrue\<close>), and last the display call, with the overlay flag and the bound
  \<open>close\<close>; and it returns true.
\<close>

theorem open_calls_in_order:
  assumes "\<not> toggle_redirect p h"
    and "\<not> isAnyMenuOpen h" and "\<not> isConsoleOpen h" and "\<not> isMenuOpen h"
    and "options p = Some opts" and "onOpen opts = Some oo"
  shows "Page_open p h = (open_calls_spec p oo, Inr True)"
  using assms
  by (simp add: Page_open_def open_calls_spec_def emit_if_append disableControls_switch_append
      truthy_def Let_def if_False_True split del: if_split)

theorem open_calls_in_order_witness:
  "\<not> toggle_redirect inventory_page quiet_host \<and>
   \<not> isAnyMenuOpen quiet_host \<and> \<not> isConsoleOpen quiet_host \<and> \<not> isMenuOpen quiet_host \<and>
   options inventory_page = Some inventory_options \<and>
   onOpen inventory_options = Some inventory_onOpen \<and>
   Page_open inventory_page quiet_host =
     ([Webview_focus, Webview_showOverlays False None, Native_displayRadar False,
       Native_displayHud False, Webview_open [''inventory''] True Close_bound], Inr True)"
proof -
  have r: "\<not> toggle_redirect inventory_page quiet_host"
    by (simp add: toggle_redirect_def uses_same_key_def page_defs)
  have a: "\<not> isAnyMenuOpen quiet_host" and b: "\<not> isConsoleOpen quiet_host"
    and c: "\<not> isMenuOpen quiet_host"
    by (simp_all add: page_defs)
  have o: "options inventory_page = Some inventory_options"
    and oo: "onOpen inventory_options = Some inventory_onOpen"
    by (simp_all add: page_defs)
  have calls: "open_calls_spec inventory_page inventory_onOpen =
     [Webview_focus, Webview_showOverlays False None, Native_displayRadar False,
       Native_displayHud False, Webview_open [''inventory''] True Close_bound]"
    by (simp add: open_calls_spec_def page_defs)
  from open_calls_in_order [OF r a b c o oo] r a b c o oo calls show ?thesis by simp
qed

text \<open>
  Claim C4. The overlay flag that \<open>open\<close> computes is the one it hands to the display call,
  its last call; the flag that \<open>close\<close> computes is the one a manual close hands to the
  hide-surface call, its first call, and the one that decides whether an automatic close
  calls \<open>showOverlays(true, false)\<close>. For every descriptor: if it has \<open>options.onOpen\<close>,
  then in a state where \<open>open\<close> reaches the computation (no toggle redirect, no blocking
  check) the flag of \<open>open\<close> is true when \<open>onOpen.hideOverlays\<close> is omitted or true, and
  false exactly when it is explicitly false, whether or not \<open>options.onClose\<close> is there;
  if it has \<open>options.onClose\<close>, the flag of \<open>close\<close> is true when
  \<open>onClose.showOverlays\<close> is omitted or true, and false exactly when it is explicitly
  false, whether or not \<open>options.onOpen\<close> is there.
\<close>

theorem overlay_flags_default_true:
  assumes "options p = Some opts"
  shows "(onOpen opts = Some oo \<and> \<not> toggle_redirect p h \<and>
          \<not> isAnyMenuOpen h \<and> \<not> isConsoleOpen h \<and> \<not> isMenuOpen h \<longrightarrow>
            last (fst (Page_open p h)) =
              Webview_open [name p] (hideOverlays oo = None \<or> hideOverlays oo = Some True)
                Close_bound \<and>
            (last (fst (Page_open p h)) = Webview_open [name p] False Close_bound) =
              (hideOverlays oo = Some False)) \<and>
         (onClose opts = Some oc \<longrightarrow>
            hd (fst (Page_close p True)) =
              Webview_close [name p] (showOverlays oc = None \<or> showOverlays oc = Some True) \<and>
            (hd (fst (Page_close p True)) = Webview_close [name p] False) =
              (showOverlays oc = Some False) \<and>
            (Webview_showOverlays True (Some False) \<in> set (fst (Page_close p False))) =
              (showOverlays oc = None \<or> showOverlays oc = Some True))"
proof -
  have three: "(x = None \<or> x = Some True) = (x \<noteq> Some False)" for x :: "bool option"
    by (cases x) auto
  have open_half:
    "last (fst (Page_open p h)) =
       Webview_open [name p] (hideOverlays oo \<noteq> Some False) Close_bound"
    if "onOpen opts = Some oo" and "\<not> toggle_redirect p h"
      and "\<not> isAnyMenuOpen h" and "\<not> isConsoleOpen h" and "\<not> isMenuOpen h"
    using that assms by (simp add: Page_open_def Let_def if_False_True)
  have close_manual:
    "hd (fst (Page_close p True)) = Webview_close [name p] (showOverlays oc \<noteq> Some False)"
    if "onClose opts = Some oc"
    using that assms by (simp add: Page_close_def Let_def emit_if_append if_False_True)
  have close_automatic:
    "(Webview_showOverlays True (Some False) \<in> set (fst (Page_close p False))) =
       (showOverlays oc \<noteq> Some False)"
    if "onClose opts = Some oc"
    using that assms by (simp add: Page_close_def Let_def emit_if_append if_False_True)
  from open_half close_manual close_automatic show ?thesis
    by (auto simp add: three)
qed

theorem overlay_flags_default_true_witness:
  "options inventory_page = Some inventory_options \<and>
   onOpen inventory_options = Some inventory_onOpen \<and>
   onClose inventory_options = Some inventory_onClose \<and>
   \<not> toggle_redirect inventory_page quiet_host \<and>
   \<not> isAnyMenuOpen quiet_host \<and> \<not> isConsoleOpen quiet_host \<and> \<not> isMenuOpen quiet_host \<and>
   hideOverlays inventory_onOpen = None \<and>
   last (fst (Page_open inventory_page quiet_host)) = Webview_open [''inventory''] True Close_bound \<and>
   showOverlays inventory_onClose = None \<and>
   hd (fst (Page_close inventory_page True)) = Webview_close [''inventory''] True \<and>
   Webview_showOverlays True (Some False) \<in> set (fst (Page_close inventory_page False)) \<and>
   lacks_onClose onOpen_only_page \<and> \<not> toggle_redirect onOpen_only_page quiet_host \<and>
   last (fst (Page_open onOpen_only_page quiet_host)) =
     Webview_open [''inventory''] False Close_bound \<and>
   lacks_onOpen onClose_only_page \<and>
   hd (fst (Page_close onClose_only_page True)) = Webview_close [''inventory''] False \<and>
   Webview_showOverlays True (Some False) \<notin> set (fst (Page_close onClose_only_page False))"
proof -
  have o: "options inventory_page = Some inventory_options"
    and oo: "onOpen inventory_options = Some inventory_onOpen"
    and oc: "onClose inventory_options = Some inventory_onClose"
    by (simp_all add: page_defs)
  have r: "\<not> toggle_redirect inventory_page quiet_host"
    and r1: "\<not> toggle_redirect onOpen_only_page quiet_host"
    by (simp_all add: toggle_redirect_def uses_same_key_def onOpen_only_page_def page_defs)
  have a: "\<not> isAnyMenuOpen quiet_host" and b: "\<not> isConsoleOpen quiet_host"
    and c: "\<not> isMenuOpen quiet_host"
    by (simp_all add: page_defs)
  have f: "hideOverlays inventory_onOpen = None" and g: "showOverlays inventory_onClose = None"
    and n: "name inventory_page = ''inventory''"
    by (simp_all add: page_defs)
  have o1: "options onOpen_only_page =
      Some \<lparr>disableEscapeKey = None,
            onOpen = Some (no_onOpen_flags\<lparr>hideOverlays := Some False\<rparr>), onClose = None\<rparr>"
    and n1: "name onOpen_only_page = ''inventory''"
    and l1: "lacks_onClose onOpen_only_page"
    by (simp_all add: onOpen_only_page_def lacks_onClose_def page_defs)
  have o2: "options onClose_only_page =
      Some \<lparr>disableEscapeKey = None, onOpen = None,
            onClose = Some (no_onClose_flags\<lparr>showOverlays := Some False\<rparr>)\<rparr>"
    and n2: "name onClose_only_page = ''inventory''"
    and l2: "lacks_onOpen onClose_only_page"
    by (simp_all add: onClose_only_page_def lacks_onOpen_def page_defs)
  from overlay_flags_default_true [OF o, of inventory_onOpen quiet_host inventory_onClose]
    overlay_flags_default_true [OF o1, of "no_onOpen_flags\<lparr>hideOverlays := Some False\<rparr>"
      quiet_host no_onClose_flags]
    overlay_flags_default_true [OF o2, of no_onOpen_flags quiet_host
      "no_onClose_flags\<lparr>showOverlays := Some False\<rparr>"]
    o oo oc r r1 a b c f g n n1 l1 n2 l2
  show ?thesis by simp
qed

text \<open>
  Claim C5. As stated (with \<open>useSameKeyToClose\<close> and the page reported open, \<open>open\<close>
  behaves as \<open>close(true)\<close> and returns false) the claim fails on a descriptor without
  \<open>options\<close>: \<open>close(true)\<close> throws, and so does \<open>open\<close>, which returns nothing.
\<close>

theorem open_bare_toggle_page_faults:
  "uses_same_key bare_toggle_page \<and> isPageOpen page_open_host (name bare_toggle_page) \<and>
   Page_close bare_toggle_page True = ([], Inl (TypeError ''onClose'')) \<and>
   Page_open bare_toggle_page page_open_host = ([], Inl (TypeError ''onClose''))"
  by (simp add: Page_open_def Page_close_def toggle_redirect_def uses_same_key_def truthy_def
      page_defs)

text \<open>
  Claim C5, amended. For every descriptor with \<open>keybind.useSameKeyToClose\<close> true, if the
  page is reported open, \<open>open\<close> makes exactly the calls of \<open>close(true)\<close>, whatever the
  three blocking checks say; it returns false when \<open>close(true)\<close> returns, which is when
  \<open>options.onClose\<close> is present, and throws the fault of \<open>close(true)\<close> otherwise.
\<close>

theorem open_same_key_is_close:
  assumes "keybind p = Some k" and "useSameKeyToClose k = Some True"
    and "isPageOpen h (name p)"
  shows "fst (Page_open p h) = fst (Page_close p True) \<and>
         snd (Page_open p h) =
           (case snd (Page_close p True) of Inl e \<Rightarrow> Inl e | Inr u \<Rightarrow> Inr False) \<and>
         snd (Page_open p h) =
           (if lacks_onClose p
            then Inl (TypeError (if options p = None then ''onClose'' else ''showOverlays''))
            else Inr False)"
proof -
  have r: "toggle_redirect p h"
    using assms by (simp add: toggle_redirect_def uses_same_key_def truthy_def)
  from Page_open_redirect [OF r] Page_close_result [of p True] show ?thesis
    by simp
qed

theorem open_same_key_is_close_witness:
  "keybind toggle_page = Some \<lparr>useSameKeyToClose = Some True\<rparr> \<and>
   useSameKeyToClose \<lparr>useSameKeyToClose = Some True\<rparr> = Some True \<and>
   isPageOpen page_open_host (name toggle_page) \<and>
   fst (Page_open toggle_page page_open_host) = fst (Page_close toggle_page True) \<and>
   fst (Page_close toggle_page True) =
     [Webview_close [''inventory''] True, Native_displayRadar True, Native_displayHud True,
      Invoke 1] \<and>
   snd (Page_open toggle_page page_open_host) = Inr False"
proof -
  have k: "keybind toggle_page = Some \<lparr>useSameKeyToClose = Some True\<rparr>"
    by (simp add: page_defs)
  have u: "useSameKeyToClose \<lparr>useSameKeyToClose = Some True\<rparr> = Some True"
    by simp
  have i: "isPageOpen page_open_host (name toggle_page)"
    by (simp add: page_defs)
  have run: "Page_close toggle_page True =
     ([Webview_close [''inventory''] True, Native_displayRadar True, Native_displayHud True,
      Invoke 1], Inr ())"
    by (simp add: Page_close_def emit_if_def truthy_def page_defs)
  from open_same_key_is_close [OF k u i] k u i run show ?thesis by simp
qed

text \<open>
  Claim C6. As stated (for every descriptor, a manual close instructs the UI host to hide
  the page) the claim fails on a descriptor whose \<open>options\<close> has no \<open>onClose\<close>:
  \<open>close(true)\<close> throws while it computes \<open>showOverlays\<close>, before the hide-surface call.
\<close>

theorem close_empty_options_page_never_hides:
  "Page_close empty_options_page True = ([], Inl (TypeError ''showOverlays'')) \<and>
   filter is_hide_surface (fst (Page_close empty_options_page True)) = []"
  by (simp add: Page_close_def page_defs)

text \<open>
  Claim C6, amended. For every descriptor that has \<open>options.onClose\<close>: a manual close
  makes exactly one hide-surface call, for this page and with the computed \<open>showOverlays\<close>
  flag, and no show-overlays call; an automatic close makes no hide-surface call, and makes
  the one call \<open>showOverlays(true, false)\<close> when the flag is true and no show-overlays call
  when it is false.
\<close>

theorem close_hide_or_show_overlays:
  assumes "options p = Some opts" and "onClose opts = Some oc"
  shows "filter is_hide_surface (fst (Page_close p True)) =
           [Webview_close [name p] (showOverlays oc \<noteq> Some False)] \<and>
         filter is_show_overlays (fst (Page_close p True)) = [] \<and>
         filter is_hide_surface (fst (Page_close p False)) = [] \<and>
         filter is_show_overlays (fst (Page_close p False)) =
           (if showOverlays oc \<noteq> Some False then [Webview_showOverlays True (Some False)] else [])"
  using assms by (simp add: Page_close_def emit_if_append truthy_def Let_def)

theorem close_hide_or_show_overlays_witness:
  "options inventory_page = Some inventory_options \<and>
   onClose inventory_options = Some inventory_onClose \<and>
   filter is_hide_surface (fst (Page_close inventory_page True)) =
     [Webview_close [''inventory''] True] \<and>
   filter is_show_overlays (fst (Page_close inventory_page True)) = [] \<and>
   filter is_hide_surface (fst (Page_close inventory_page False)) = [] \<and>
   filter is_show_overlays (fst (Page_close inventory_page False)) =
     [Webview_showOverlays True (Some False)]"
proof -
  have o: "options inventory_page = Some inventory_options"
    and c: "onClose inventory_options = Some inventory_onClose"
    by (simp_all add: page_defs)
  have f: "showOverlays inventory_onClose = None" and n: "name inventory_page = ''inventory''"
    by (simp_all add: page_defs)
  from close_hide_or_show_overlays [OF o c] o c f n show ?thesis by simp
qed

text \<open>
  Claim C7. As stated (for every descriptor without \<open>useSameKeyToClose\<close>, \<open>open\<close> on an
  open page with nothing blocking re-applies the side effects and returns true) the claim
  fails on a descriptor without \<open>options\<close>: \<open>open\<close> throws, makes no call and returns
  nothing.
\<close>

theorem open_bare_page_already_open_faults:
  "\<not> uses_same_key bare_page \<and> isPageOpen page_open_host (name bare_page) \<and>
   \<not> blocked page_open_host \<and>
   Page_open bare_page page_open_host = ([], Inl (TypeError ''onOpen''))"
  by (simp add: Page_open_def toggle_redirect_def uses_same_key_def blocked_def page_defs)

text \<open>
  Claim C7, amended. For every descriptor without \<open>keybind.useSameKeyToClose\<close> that has
  \<open>options.onOpen\<close>: \<open>open\<close> does not depend on whether the page is open. Called while the
  page is reported open, with none of the three blocking checks holding, it makes all the
  calls of a first \<open>open\<close>, the display call last, and returns true, exactly as it does
  when the page is not open.
\<close>

theorem open_again_reapplies:
  assumes "\<not> uses_same_key p" and "isPageOpen h (name p)"
    and "\<not> isAnyMenuOpen h" and "\<not> isConsoleOpen h" and "\<not> isMenuOpen h"
    and "options p = Some opts" and "onOpen opts = Some oo"
  shows "Page_open p h = (open_calls_spec p oo, Inr True) \<and>
         Page_open p (h\<lparr>isPageOpen := answer\<rparr>) = Page_open p h \<and>
         last (fst (Page_open p h)) =
           Webview_open [name p] (hideOverlays oo \<noteq> Some False) Close_bound"
proof -
  have r: "\<not> toggle_redirect p h'" for h'
    using assms(1) by (simp add: toggle_redirect_def)
  have closed_form: "Page_open p h' = (open_calls_spec p oo, Inr True)"
    if "\<not> isAnyMenuOpen h'" and "\<not> isConsoleOpen h'" and "\<not> isMenuOpen h'" for h'
    using that r [of h'] assms(6,7)
    by (simp add: Page_open_def open_calls_spec_def emit_if_append
        disableControls_switch_append truthy_def Let_def if_False_True split del: if_split)
  have 1: "Page_open p h = (open_calls_spec p oo, Inr True)"
    using assms by (simp add: closed_form)
  have 2: "Page_open p (h\<lparr>isPageOpen := answer\<rparr>) = (open_calls_spec p oo, Inr True)"
    using assms by (simp add: closed_form)
  have 3: "last (open_calls_spec p oo) =
           Webview_open [name p] (hideOverlays oo \<noteq> Some False) Close_bound"
    by (simp add: open_calls_spec_def)
  from 1 2 3 show ?thesis by simp
qed

theorem open_again_reapplies_witness:
  "\<not> uses_same_key inventory_page \<and> isPageOpen page_open_host (name inventory_page) \<and>
   \<not> isAnyMenuOpen page_open_host \<and> \<not> isConsoleOpen page_open_host \<and>
   \<not> isMenuOpen page_open_host \<and>
   options inventory_page = Some inventory_options \<and>
   onOpen inventory_options = Some inventory_onOpen \<and>
   Page_open inventory_page page_open_host =
     ([Webview_focus, Webview_showOverlays False None, Native_displayRadar False,
       Native_displayHud False, Webview_open [''inventory''] True Close_bound], Inr True) \<and>
   Page_open inventory_page (page_open_host\<lparr>isPageOpen := (\<lambda>n. False)\<rparr>) =
     Page_open inventory_page page_open_host"
proof -
  have k: "\<not> uses_same_key inventory_page"
    by (simp add: uses_same_key_def page_defs)
  have i: "isPageOpen page_open_host (name inventory_page)"
    by (simp add: page_defs)
  have a: "\<not> isAnyMenuOpen page_open_host" and b: "\<not> isConsoleOpen page_open_host"
    and c: "\<not> isMenuOpen page_open_host"
    by (simp_all add: page_defs)
  have o: "options inventory_page = Some inventory_options"
    and oo: "onOpen inventory_options = Some inventory_onOpen"
    by (simp_all add: page_defs)
  have calls: "open_calls_spec inventory_page inventory_onOpen =
     [Webview_focus, Webview_showOverlays False None, Native_displayRadar False,
       Native_displayHud False, Webview_open [''inventory''] True Close_bound]"
    by (simp add: open_calls_spec_def page_defs)
  from open_again_reapplies [OF k i a b c o oo, of "\<lambda>n. False"] k i a b c o oo calls
  show ?thesis by simp
qed

text \<open>
  Claim C8. For every descriptor that lacks \<open>options\<close> or \<open>options.onOpen\<close>, in a state
  where the toggle redirect does not fire and none of the three blocking checks holds,
  \<open>open\<close> throws a \<open>TypeError\<close> at its first read through \<open>options.onOpen\<close>, having made
  no call; it does not return false. That fault occurs in no other case: a descriptor that
  has \<open>options.onOpen\<close> never meets it, and a descriptor that has \<open>options.onOpen\<close> and
  \<open>options.onClose\<close> meets no fault at all, in any state of the host.
\<close>

theorem open_fails_fast_without_onOpen:
  "(lacks_onOpen p \<and> \<not> toggle_redirect p h \<and> \<not> blocked h \<longrightarrow>
      Page_open p h =
        ([], Inl (TypeError (if options p = None then ''onOpen'' else ''focus'')))) \<and>
   (snd (Page_open p h) = Inl (TypeError ''onOpen'') \<or>
    snd (Page_open p h) = Inl (TypeError ''focus'') \<longrightarrow>
      lacks_onOpen p \<and> \<not> toggle_redirect p h \<and> \<not> blocked h) \<and>
   (\<not> lacks_onOpen p \<and> \<not> lacks_onClose p \<longrightarrow>
      snd (Page_open p h) = Inr (\<not> toggle_redirect p h \<and> \<not> blocked h))"
proof (cases "toggle_redirect p h")
  case True
  from Page_open_redirect(2) [OF True] Page_close_result [of p True]
  have "snd (Page_open p h) =
           (if lacks_onClose p
            then Inl (TypeError (if options p = None then ''onClose'' else ''showOverlays''))
            else Inr False)"
    by simp
  with True show ?thesis by simp
next
  case no_redirect: False
  show ?thesis
  proof (cases "blocked h")
    case True
    with no_redirect Page_open_blocked [OF no_redirect True] show ?thesis by simp
  next
    case False
    note run = Page_open_run [OF no_redirect False]
    show ?thesis
    proof (cases "lacks_onOpen p")
      case True
      with run no_redirect False show ?thesis by simp
    next
      case no_lack: False
      with run have "snd (Page_open p h) = Inr True"
        by (metis snd_conv)
      with no_lack no_redirect False show ?thesis by simp
    qed
  qed
qed

theorem open_fails_fast_without_onOpen_witness:
  "lacks_onOpen bare_page \<and> \<not> toggle_redirect bare_page quiet_host \<and> \<not> blocked quiet_host \<and>
   Page_open bare_page quiet_host = ([], Inl (TypeError ''onOpen'')) \<and>
   \<not> lacks_onOpen inventory_page \<and> \<not> lacks_onClose inventory_page \<and>
   snd (Page_open inventory_page quiet_host) = Inr True"
proof -
  have l: "lacks_onOpen bare_page" and o: "options bare_page = None"
    by (simp_all add: lacks_onOpen_def page_defs)
  have r: "\<not> toggle_redirect bare_page quiet_host"
    and r': "\<not> toggle_redirect inventory_page quiet_host"
    by (simp_all add: toggle_redirect_def uses_same_key_def page_defs)
  have b: "\<not> blocked quiet_host"
    by (simp add: blocked_def page_defs)
  have w: "\<not> lacks_onOpen inventory_page" and w': "\<not> lacks_onClose inventory_page"
    by (simp_all add: lacks_onOpen_def lacks_onClose_def page_defs)
  from open_fails_fast_without_onOpen [of bare_page quiet_host]
    open_fails_fast_without_onOpen [of inventory_page quiet_host] l o r r' b w w'
  show ?thesis by simp
qed

section \<open>Properties of the weather system\<close>

lemma shift_push_rotate1:
  "ws \<noteq> [] \<Longrightarrow> (case array_shift ws of (w, rest) \<Rightarrow> array_push rest w) = rotate1 ws"
  by (cases ws) (simp_all add: array_shift_def array_push_def)

lemma handleWeatherUpdate_weathers:
  "weathers s \<noteq> [] \<Longrightarrow>
   weathers (fst (handleWeatherUpdate gw s all_players)) =
     (if enabled s \<and> loggedInPlayers all_players \<noteq> [] then rotate1 (weathers s) else weathers s)"
  using shift_push_rotate1 [of "weathers s"]
  by (simp add: handleWeatherUpdate_def Let_def split: prod.splits)

lemma weather_step_weathers:
  "weathers s \<noteq> [] \<Longrightarrow>
   weathers (weather_step gw s e) = weathers s \<or> weathers (weather_step gw s e) = rotate1 (weathers s)"
  by (cases e)
    (simp_all add: handleWeatherUpdate_weathers DefaultWeatherSystem_disable_def Let_def
      split: option.splits)

lemma weather_run_snoc: "weather_run gw (events @ [e]) = weather_step gw (weather_run gw events) e"
  by (simp add: weather_run_def)

lemma weather_run_rotation:
  "\<exists>n. weathers (weather_run gw events) = rotate n (weathers weather_init)"
proof (induction events rule: rev_induct)
  case Nil
  have "weathers (weather_run gw []) = rotate 0 (weathers weather_init)"
    by (simp add: weather_run_def)
  then show ?case by blast
next
  case (snoc e events)
  then obtain n where n: "weathers (weather_run gw events) = rotate n (weathers weather_init)"
    by blast
  have "weathers weather_init \<noteq> []"
    by (simp add: weather_init_def)
  then have ne: "weathers (weather_run gw events) \<noteq> []"
    using n by simp
  from weather_step_weathers [OF ne, of gw e]
  have "weathers (weather_run gw (events @ [e])) = rotate n (weathers weather_init) \<or>
        weathers (weather_run gw (events @ [e])) = rotate (Suc n) (weathers weather_init)"
    by (simp add: weather_run_snoc n)
  then show ?case by blast
qed

lemma mset_rotate_same: "mset (rotate n xs) = mset xs"
proof -
  have "mset (drop k xs @ take k xs) = mset xs" for k
    by (metis append_take_drop_id mset_append union_commute)
  then show ?thesis
    by (simp only: rotate_drop_take)
qed

lemma first_weather_hd: "ws \<noteq> [] \<Longrightarrow> first_weather ws = hd ws"
  by (cases ws) (simp_all add: first_weather_def)

text \<open>
  Claim C9. In every reachable state \<open>s\<close> of the weather module (the state after any list of
  timer ticks, character selections and calls of \<open>disable\<close>): the array has 11 elements
  and the same keys, each as many times, as the initial array; a run of
  \<open>handleWeatherUpdate\<close> leaves the array as it is when the system is disabled or no valid,
  fully spawned player is connected, and otherwise replaces it by its rotation to the left
  by one; and \<open>getCurrentWeather\<close> returns the first element of the array, a key and not
  \<open>undefined\<close>, as a string, or the number \<open>getWeatherFromString\<close> gives for it.
\<close>

theorem weather_rotation_invariant:
  "length (weathers (weather_run gw events)) = 11 \<and>
   mset (weathers (weather_run gw events)) = mset (weathers weather_init) \<and>
   weathers (fst (handleWeatherUpdate gw (weather_run gw events) all_players)) =
     (if enabled (weather_run gw events) \<and> loggedInPlayers all_players \<noteq> []
      then rotate1 (weathers (weather_run gw events))
      else weathers (weather_run gw events)) \<and>
   hd (weathers (weather_run gw events)) \<noteq> None \<and>
   getCurrentWeather gw (weather_run gw events) True =
     Inr (hd (weathers (weather_run gw events))) \<and>
   getCurrentWeather gw (weather_run gw events) False =
     Inl (gw (hd (weathers (weather_run gw events))))"
proof -
  obtain n where n: "weathers (weather_run gw events) = rotate n (weathers weather_init)"
    using weather_run_rotation by blast
  have len: "length (weathers (weather_run gw events)) = 11"
    by (simp add: n weather_init_def)
  then have ne: "weathers (weather_run gw events) \<noteq> []"
    by auto
  have ms: "mset (weathers (weather_run gw events)) = mset (weathers weather_init)"
    by (simp add: n mset_rotate_same)
  have "hd (weathers (weather_run gw events)) \<in> set (weathers (weather_run gw events))"
    using ne by simp
  then have "hd (weathers (weather_run gw events)) \<in> set (weathers weather_init)"
    by (simp add: n)
  then have some: "hd (weathers (weather_run gw events)) \<noteq> None"
    by (auto simp add: weather_init_def)
  from len ms some handleWeatherUpdate_weathers [OF ne] first_weather_hd [OF ne]
  show ?thesis
    by (simp add: getCurrentWeather_def)
qed

theorem weather_rotation_invariant_witness:
  "weathers (weather_run (\<lambda>w. 0)
      [Interval_tick [None, Some \<lparr>player_id = 4, valid = True, hasFullySpawned = True\<rparr>],
       Disable, Interval_tick [Some \<lparr>player_id = 4, valid = True, hasFullySpawned = True\<rparr>]]) =
     [Some ''ExtraSunny'', Some ''Clear'', Some ''Clouds'', Some ''Overcast'', Some ''Rain'',
      Some ''Thunder'', Some ''Rain'', Some ''Foggy'', Some ''Overcast'', Some ''Clearing'',
      Some ''ExtraSunny''] \<and>
   length (weathers (weather_run (\<lambda>w. 0)
      [Interval_tick [None, Some \<lparr>player_id = 4, valid = True, hasFullySpawned = True\<rparr>],
       Disable, Interval_tick [Some \<lparr>player_id = 4, valid = True, hasFullySpawned = True\<rparr>]])) = 11 \<and>
   getCurrentWeather (\<lambda>w. 0) (weather_run (\<lambda>w. 0)
      [Interval_tick [None, Some \<lparr>player_id = 4, valid = True, hasFullySpawned = True\<rparr>],
       Disable, Interval_tick [Some \<lparr>player_id = 4, valid = True, hasFullySpawned = True\<rparr>]]) True =
     Inr (Some ''ExtraSunny'')"
proof -
  have run: "weathers (weather_run (\<lambda>w. 0)
      [Interval_tick [None, Some \<lparr>player_id = 4, valid = True, hasFullySpawned = True\<rparr>],
       Disable, Interval_tick [Some \<lparr>player_id = 4, valid = True, hasFullySpawned = True\<rparr>]]) =
     [Some ''ExtraSunny'', Some ''Clear'', Some ''Clouds'', Some ''Overcast'', Some ''Rain'',
      Some ''Thunder'', Some ''Rain'', Some ''Foggy'', Some ''Overcast'', Some ''Clearing'',
      Some ''ExtraSunny'']"
    by (simp add: weather_run_def handleWeatherUpdate_def DefaultWeatherSystem_disable_def
        weather_init_def array_shift_def array_push_def Let_def)
  from weather_rotation_invariant [of "\<lambda>w. 0"
      "[Interval_tick [None, Some \<lparr>player_id = 4, valid = True, hasFullySpawned = True\<rparr>],
       Disable, Interval_tick [Some \<lparr>player_id = 4, valid = True, hasFullySpawned = True\<rparr>]]"]
    run
  show ?thesis by simp
qed

section \<open>Properties of the vehicle helpers\<close>

text \<open>
  Claim C10. For every vehicle and every door, \<open>toggleDoor\<close> sets the door's state to 7
  when it was 0 and to 0 otherwise, leaves the other doors alone, and returns true exactly
  when the door was open (not in state 0) before the call, which is exactly when it is
  closed (in state 0) after the call: the value returned is the negation of the door's new
  open state.
\<close>

theorem toggleDoor_returns_previous_open:
  "getDoorState (fst (toggleDoor v door)) door = (if getDoorState v door = 0 then 7 else 0) \<and>
   snd (toggleDoor v door) = door_open (getDoorState v door) \<and>
   snd (toggleDoor v door) = (getDoorState (fst (toggleDoor v door)) door = 0) \<and>
   snd (toggleDoor v door) = (\<not> door_open (getDoorState (fst (toggleDoor v door)) door)) \<and>
   getDoorState (fst (toggleDoor v door)) other =
     (if other = door then (if getDoorState v door = 0 then 7 else 0) else getDoorState v other)"
  by (simp add: toggleDoor_def getDoorState_def setDoorState_def door_open_def Let_def)

theorem toggleDoor_returns_previous_open_witness:
  "getDoorState (fst (toggleDoor \<lparr>doorStates = (\<lambda>d. 0)\<rparr> 2)) 2 = 7 \<and>
   snd (toggleDoor \<lparr>doorStates = (\<lambda>d. 0)\<rparr> 2) = False \<and>
   getDoorState (fst (toggleDoor \<lparr>doorStates = (\<lambda>d. 3)\<rparr> 5)) 5 = 0 \<and>
   snd (toggleDoor \<lparr>doorStates = (\<lambda>d. 3)\<rparr> 5) = True"
  using toggleDoor_returns_previous_open [of "\<lparr>doorStates = (\<lambda>d. 0)\<rparr>" 2 2]
    toggleDoor_returns_previous_open [of "\<lparr>doorStates = (\<lambda>d. 3)\<rparr>" 5 5]
  by (simp add: getDoorState_def door_open_def)

end
